theory Spec2Isabelle
  imports Main "HOL-Library.Sublist" "HOL-Library.AList" "HOL-Library.List_Lexorder"
    "HOL-Library.Char_ord"
begin

section \<open>The FHIR type-declaration generator (packages/generator/src/index.ts)\<close>

text \<open>
  The generator reads a schema index (type name to type schema) and a corpus of value
  sets, and writes one TypeScript declaration file per top-level type plus three
  aggregate files.  The model follows the source function by function.  A JavaScript
  string is a \<open>string\<close>; the model covers ASCII text (case mapping of other
  characters is the identity here).  An optional field of the input JSON is an
  \<open>option\<close>; a thrown exception is a value of \<open>error\<close>.
\<close>

subsection \<open>String primitives of the host language\<close>

text \<open>JavaScript truthiness of an optional string: present and not empty.\<close>

definition truthy :: "string option \<Rightarrow> bool" where
  "truthy s = (case s of None \<Rightarrow> False | Some t \<Rightarrow> t \<noteq> [])"

definition startsWith :: "string \<Rightarrow> string \<Rightarrow> bool" where
  "startsWith s p = prefix p s"

definition endsWith :: "string \<Rightarrow> string \<Rightarrow> bool" where
  "endsWith s p = suffix p s"

text \<open>\<open>s.includes(p)\<close>: \<open>p\<close> occurs in \<open>s\<close> as a contiguous block.\<close>

fun includes_str :: "string \<Rightarrow> string \<Rightarrow> bool" where
  "includes_str [] p = (p = [])"
| "includes_str (c # cs) p = (prefix p (c # cs) \<or> includes_str cs p)"

text \<open>\<open>s.indexOf(p)\<close>: position of the first occurrence, \<open>-1\<close> when there is none.\<close>

fun indexOf_from :: "int \<Rightarrow> string \<Rightarrow> string \<Rightarrow> int" where
  "indexOf_from i [] p = (if p = [] then i else -1)"
| "indexOf_from i (c # cs) p = (if prefix p (c # cs) then i else indexOf_from (i + 1) cs p)"

definition indexOf :: "string \<Rightarrow> string \<Rightarrow> int" where
  "indexOf s p = indexOf_from 0 s p"

text \<open>
  \<open>s.substring(a, b)\<close>: both bounds are clamped to \<open>0 .. length\<close> and swapped when
  the first exceeds the second.
\<close>

definition substring :: "string \<Rightarrow> int \<Rightarrow> int \<Rightarrow> string" where
  "substring s a b =
     (let n = int (length s);
          a' = min n (max 0 a);
          b' = min n (max 0 b);
          lo = min a' b';
          hi = max a' b'
      in take (nat (hi - lo)) (drop (nat lo) s))"

text \<open>\<open>s.replace(p, r)\<close> with a string pattern: only the first occurrence is replaced.\<close>

fun replace :: "string \<Rightarrow> string \<Rightarrow> string \<Rightarrow> string" where
  "replace [] p r = (if p = [] then r else [])"
| "replace (c # cs) p r =
     (if prefix p (c # cs) then r @ drop (length p) (c # cs) else c # replace cs p r)"

text \<open>
  \<open>s.split(sep)\<close> for a non-empty separator: the pieces between the occurrences of
  \<open>sep\<close>, scanned from the left; the result always has at least one piece.
\<close>

fun split_from :: "string \<Rightarrow> string \<Rightarrow> string \<Rightarrow> string list" where
  "split_from sep cur [] = [cur]"
| "split_from sep cur (c # cs) =
     (if prefix sep (c # cs) then cur # split_from sep [] (drop (length sep - 1) cs)
      else split_from sep (cur @ [c]) cs)"

definition split :: "string \<Rightarrow> string \<Rightarrow> string list" where
  "split s sep = split_from sep [] s"

text \<open>\<open>xs.join(sep)\<close>.\<close>

fun join :: "string list \<Rightarrow> string \<Rightarrow> string" where
  "join [] sep = []"
| "join [x] sep = x"
| "join (x # y # ys) sep = x @ sep @ join (y # ys) sep"

definition toUpperCase_char :: "char \<Rightarrow> char" where
  "toUpperCase_char c =
     (case map_of (zip ''abcdefghijklmnopqrstuvwxyz'' ''ABCDEFGHIJKLMNOPQRSTUVWXYZ'') c of
        None \<Rightarrow> c | Some u \<Rightarrow> u)"

definition toLowerCase_char :: "char \<Rightarrow> char" where
  "toLowerCase_char c =
     (case map_of (zip ''ABCDEFGHIJKLMNOPQRSTUVWXYZ'' ''abcdefghijklmnopqrstuvwxyz'') c of
        None \<Rightarrow> c | Some l \<Rightarrow> l)"

text \<open>
  Modelled from the spec: \<open>capitalize\<close> is imported from the core package, which is not
  among the sources.  The spec describes it as writing a path segment ``with its first
  letter capitalized''; the rest of the word is unchanged and the empty word stays empty.
\<close>

fun capitalize :: "string \<Rightarrow> string" where
  "capitalize [] = []"
| "capitalize (c # cs) = toUpperCase_char c # cs"

text \<open>\<open>isLowerCase(c)\<close> is \<open>c === c.toLowerCase()\<close>; the empty string passes.\<close>

definition isLowerCase :: "string \<Rightarrow> bool" where
  "isLowerCase c = (c = map toLowerCase_char c)"

text \<open>\<open>s.charAt(0)\<close>: the first character as a string, empty for the empty string.\<close>

definition charAt0 :: "string \<Rightarrow> string" where
  "charAt0 s = take 1 s"

subsection \<open>Input data\<close>

text \<open>
  The fields of the FHIR records that the generator reads.  \<open>code\<close> of a type entry
  is read with a cast to \<open>string\<close>; the model covers type entries that carry one.
\<close>

record ElementDefinitionType =
  code :: string
  targetProfile :: "string list option"

record ElementDefinitionBinding =
  strength :: "string option"
  valueSet :: "string option"

record ElementDefinition =
  contentReference :: "string option"
  max_card :: "string option"
  types :: "ElementDefinitionType list option"
  binding :: "ElementDefinitionBinding option"
  definition_text :: "string option"

record Property =
  resourceType :: string
  name :: string
  pdefinition :: ElementDefinition

datatype CodeSystemConcept =
  CodeSystemConcept (concept_code: "string option") (concept_children: "CodeSystemConcept list option")

record ValueSetComposeIncludeConcept =
  inc_code :: "string option"

record ValueSetComposeInclude =
  inc_concept :: "ValueSetComposeIncludeConcept list option"
  inc_system :: "string option"

record ValueSetCompose =
  compose_include :: "ValueSetComposeInclude list option"

datatype vs_resource =
  ValueSet (vs_compose: "ValueSetCompose option")
| CodeSystem (cs_concept: "CodeSystemConcept list option")

text \<open>The module-level \<open>valueSets\<close> map, keyed by URL.\<close>

type_synonym valueSets = "string \<rightharpoonup> vs_resource"

datatype error = TypeError | RangeError

subsection \<open>Value-set flattening\<close>

text \<open>
  \<open>buildCodeSystemConceptValues\<close>: depth first, a concept's own code before the codes
  of its children; an absent or empty code is skipped.  The source appends to a result
  array; the model returns the appended codes.
\<close>

fun buildCodeSystemConceptValues :: "CodeSystemConcept list option \<Rightarrow> string list"
  and conceptValues :: "CodeSystemConcept \<Rightarrow> string list" where
  "buildCodeSystemConceptValues None = []"
| "buildCodeSystemConceptValues (Some cs) = concat (map conceptValues cs)"
| "conceptValues (CodeSystemConcept c sub) =
     (if truthy c then [the c] else []) @ buildCodeSystemConceptValues sub"

text \<open>
  \<open>getValueSetValues\<close>, \<open>buildValueSetValues\<close> and \<open>buildValueSetComposeValues\<close>
  call each other through the URLs stored in the corpus, with no guard against a cycle.
  The first argument bounds the depth of these calls; \<open>None\<close> is the call stack
  running out.
\<close>

definition includeConceptValues :: "ValueSetComposeIncludeConcept list \<Rightarrow> string list" where
  "includeConceptValues cs =
     concat (map (\<lambda>c. if truthy (inc_code c) then [the (inc_code c)] else []) cs)"

text \<open>The head of \<open>buildValueSetValues\<close>: a version suffix after \<open>|\<close> is dropped.\<close>

definition stripVersion :: "string \<Rightarrow> string" where
  "stripVersion url = (if includes_str url ''|'' then hd (split url ''|'') else url)"

fun getValueSetValues :: "nat \<Rightarrow> valueSets \<Rightarrow> string \<Rightarrow> string list option"
  and buildValueSetValues :: "nat \<Rightarrow> valueSets \<Rightarrow> string \<Rightarrow> string list option"
  and buildValueSetComposeValues :: "nat \<Rightarrow> valueSets \<Rightarrow> ValueSetCompose option \<Rightarrow> string list option"
  and buildIncludeValues :: "nat \<Rightarrow> valueSets \<Rightarrow> ValueSetComposeInclude list \<Rightarrow> string list option"
where
  "getValueSetValues 0 vs url = None"
| "getValueSetValues (Suc n) vs url = buildValueSetValues n vs url"
| "buildValueSetValues n vs url =
     (case vs (stripVersion url) of
        None \<Rightarrow> Some []
      | Some (ValueSet compose) \<Rightarrow> buildValueSetComposeValues n vs compose
      | Some (CodeSystem concepts) \<Rightarrow> Some (buildCodeSystemConceptValues concepts))"
| "buildValueSetComposeValues n vs compose =
     (case compose of
        None \<Rightarrow> Some []
      | Some c \<Rightarrow>
          (case compose_include c of
             None \<Rightarrow> Some []
           | Some incs \<Rightarrow> buildIncludeValues n vs incs))"
| "buildIncludeValues n vs [] = Some []"
| "buildIncludeValues n vs (inc # incs) =
     (case (case inc_concept inc of
              Some cs \<Rightarrow> Some (includeConceptValues cs)
            | None \<Rightarrow>
                if truthy (inc_system inc) then getValueSetValues n vs (the (inc_system inc))
                else Some []) of
        None \<Rightarrow> None
      | Some included \<Rightarrow>
          (case buildIncludeValues n vs incs of
             None \<Rightarrow> None
           | Some rest \<Rightarrow> Some (included @ rest)))"

subsection \<open>Property resolution\<close>

definition apos :: string where
  "apos = [CHR 0x27]"

text \<open>The separator \<^verbatim>\<open>' | '\<close> between the literals of a union.\<close>

definition unionSep :: string where
  "unionSep = apos @ '' | '' @ apos"

definition stringCodes :: "string list" where
  "stringCodes = [''base64Binary'', ''canonical'', ''code'', ''id'', ''markdown'', ''oid'',
     ''string'', ''uri'', ''url'', ''uuid'', ''xhtml'', ''http://hl7.org/fhirpath/System.String'']"

definition dateCodes :: "string list" where
  "dateCodes = [''date'', ''dateTime'', ''instant'', ''time'']"

definition numberCodes :: "string list" where
  "numberCodes = [''decimal'', ''integer'', ''positiveInt'', ''unsignedInt'', ''number'']"

text \<open>The binding of a property when its value set is truthy and its strength is \<open>required\<close>.\<close>

definition requiredValueSet :: "Property \<Rightarrow> string option" where
  "requiredValueSet p =
     (case binding (pdefinition p) of
        None \<Rightarrow> None
      | Some b \<Rightarrow> if truthy (valueSet b) \<and> strength b = Some ''required'' then valueSet b else None)"

text \<open>The \<open>Reference\<close> case of the switch: the loop over the target profiles.\<close>

definition referenceType :: "string \<Rightarrow> string list option \<Rightarrow> string" where
  "referenceType baseType tps =
     (case tps of
        None \<Rightarrow> baseType
      | Some ps \<Rightarrow>
          if ps = [] then baseType
          else fold (\<lambda>tp b. (if endsWith b ''<'' then b else b @ '' | '') @ last (split tp ''/''))
                 ps (baseType @ ''<'') @ ''>'')"

text \<open>The result of the switch of \<open>getTypeScriptTypeForProperty\<close>, before the cardinality test.\<close>

definition switchBaseType :: "nat \<Rightarrow> valueSets \<Rightarrow> Property \<Rightarrow> ElementDefinitionType \<Rightarrow> error + string" where
  "switchBaseType fuel vs p td =
     (let baseType = code td in
      if baseType \<in> set stringCodes then
        (case requiredValueSet p of
           None \<Rightarrow> Inr ''string''
         | Some u \<Rightarrow>
             if u = ''http://hl7.org/fhir/ValueSet/resource-types|4.0.1'' then Inr ''ResourceType''
             else if u \<noteq> ''http://hl7.org/fhir/ValueSet/all-types|4.0.1'' \<and>
                     u \<noteq> ''http://hl7.org/fhir/ValueSet/defined-types|4.0.1''
             then (case getValueSetValues fuel vs u of
                     None \<Rightarrow> Inl RangeError
                   | Some values \<Rightarrow>
                       if length values > 0 then Inr (apos @ join values unionSep @ apos)
                       else Inr ''string'')
             else Inr ''string'')
      else if baseType \<in> set dateCodes then Inr ''string''
      else if baseType \<in> set numberCodes then Inr ''number''
      else if baseType = ''ResourceList'' then Inr ''Resource''
      else if baseType = ''Element'' \<or> baseType = ''BackboneElement''
        then Inr (resourceType p @ capitalize (name p))
      else if baseType = ''Reference'' then Inr (referenceType baseType (targetProfile td))
      else Inr baseType)"

definition getTypeScriptTypeForProperty ::
  "nat \<Rightarrow> valueSets \<Rightarrow> Property \<Rightarrow> ElementDefinitionType \<Rightarrow> error + string" where
  "getTypeScriptTypeForProperty fuel vs p td =
     (case switchBaseType fuel vs p td of
        Inl e \<Rightarrow> Inl e
      | Inr baseType \<Rightarrow>
          if max_card (pdefinition p) = Some ''*'' then
            (if includes_str baseType unionSep then Inr (''('' @ baseType @ '')[]'')
             else Inr (baseType @ ''[]''))
          else Inr baseType)"

text \<open>
  \<open>getTypeScriptProperties\<close>: the output fields (name, type) of one property.  The
  two hard-coded cases come first, then the content reference, the choice type and
  the plain case.  A property without a type list makes the source read a field of
  \<open>undefined\<close>, a \<open>TypeError\<close>.
\<close>

fun sequence_results :: "(error + 'a) list \<Rightarrow> error + 'a list" where
  "sequence_results [] = Inr []"
| "sequence_results (Inl e # rs) = Inl e"
| "sequence_results (Inr x # rs) =
     (case sequence_results rs of Inl e \<Rightarrow> Inl e | Inr xs \<Rightarrow> Inr (x # xs))"

definition getTypeScriptProperties ::
  "nat \<Rightarrow> valueSets \<Rightarrow> Property \<Rightarrow> error + (string \<times> string) list" where
  "getTypeScriptProperties fuel vs p =
     (if name p = ''resource'' \<and>
         resourceType p \<in> set [''BundleEntry'', ''OperationOutcome'', ''Reference'']
      then Inr [(''resource'', ''T'')]
      else if resourceType p = ''Bundle'' \<and> name p = ''entry''
      then Inr [(''entry'', ''BundleEntry<T>[]'')]
      else if truthy (contentReference (pdefinition p)) then
        (let baseName = concat (map capitalize
                          (split (replace (the (contentReference (pdefinition p))) ''#'' []) ''.''));
             typeName = (if max_card (pdefinition p) = Some ''*'' then baseName @ ''[]'' else baseName)
         in Inr [(name p, typeName)])
      else if endsWith (name p) ''[x]'' then
        (let baseName = replace (name p) ''[x]'' [] in
         case types (pdefinition p) of
           None \<Rightarrow> Inl TypeError
         | Some propertyTypes \<Rightarrow>
             sequence_results (map (\<lambda>propertyType.
               case getTypeScriptTypeForProperty fuel vs p propertyType of
                 Inl e \<Rightarrow> Inl e
               | Inr t \<Rightarrow> Inr (baseName @ capitalize (code propertyType), t)) propertyTypes))
      else
        (case types (pdefinition p) of
           None \<Rightarrow> Inl TypeError
         | Some [] \<Rightarrow> Inl TypeError
         | Some (td # _) \<Rightarrow>
             (case getTypeScriptTypeForProperty fuel vs p td of
                Inl e \<Rightarrow> Inl e
              | Inr t \<Rightarrow> Inr [(name p, t)])))"

subsection \<open>Imports\<close>

definition cleanReferencedType :: "string \<Rightarrow> string list" where
  "cleanReferencedType typeName =
     (if typeName = ''T'' then [''Resource'']
      else if startsWith typeName apos \<or> isLowerCase (charAt0 typeName) \<or>
              typeName = ''BundleEntry<T>[]''
      then []
      else if startsWith typeName ''Reference<'' then
        (let start = indexOf typeName ''<'' + 1;
             stop = indexOf typeName ''>''
         in ''Reference'' # split (substring typeName start stop) '' | '')
      else [replace typeName ''[]'' []])"

subsection \<open>Type nodes\<close>

text \<open>
  \<open>TypeSchema\<close> is an entry of the schema index; its properties are listed in the
  order in which \<open>Object.entries\<close> enumerates them.
\<close>

record TypeSchema =
  description :: "string option"
  ts_parentType :: "string option"
  ts_properties :: "(string \<times> ElementDefinition) list option"

text \<open>
  The interface \<open>FhirType\<close>.  \<open>subTypes\<close> holds references to other nodes, so the
  fields other than \<open>subTypes\<close> are a record of their own: a node read through its
  references is the tree \<open>FhirType\<close>, and a node in the module-level array
  \<open>fhirTypes\<close> carries the positions of its subtypes in that array.
\<close>

record FhirTypeFields =
  tdefinition :: TypeSchema
  inputName :: string
  parentType :: "string option"
  outputName :: string
  properties :: "Property list"
  resource :: bool
  domainResource :: bool

datatype FhirType = FhirType (node: FhirTypeFields) (subTypes: "FhirType list")

definition baseResourceProperties :: "string list" where
  "baseResourceProperties = [''id'', ''meta'', ''implicitRules'', ''language'']"

definition domainResourceProperties :: "string list" where
  "domainResourceProperties = [''text'', ''contained'', ''extension'', ''modifierExtension'']"

definition containsAll :: "string list \<Rightarrow> string list \<Rightarrow> bool" where
  "containsAll names values = list_all (\<lambda>v. v \<in> set names) values"

text \<open>
  \<open>buildType\<close>: the loop skips every entry whose name starts with an underscore and
  pushes the others, in order; the new node has no subtypes yet.
\<close>

definition buildType :: "string \<Rightarrow> TypeSchema \<Rightarrow> FhirTypeFields option" where
  "buildType rt d =
     (case ts_properties d of
        None \<Rightarrow> None
      | Some entries \<Rightarrow>
          (let kept = filter (\<lambda>(propertyName, propertyDefinition). \<not> startsWith propertyName ''_'') entries;
               props = map (\<lambda>(propertyName, propertyDefinition).
                         \<lparr>resourceType = rt, name = propertyName, pdefinition = propertyDefinition\<rparr>) kept;
               propertyNames = map fst kept
           in Some \<lparr>tdefinition = d, inputName = rt, parentType = ts_parentType d,
                outputName = rt, properties = props,
                resource = containsAll propertyNames baseResourceProperties,
                domainResource = containsAll propertyNames domainResourceProperties\<rparr>))"

subsection \<open>Collecting imports\<close>

text \<open>A JavaScript \<open>Set\<close> of strings in insertion order; \<open>set_add\<close> is \<open>Set.add\<close>.\<close>

definition set_add :: "string \<Rightarrow> string list \<Rightarrow> string list" where
  "set_add x xs = (if x \<in> set xs then xs else xs @ [x])"

text \<open>
  The loop over the properties in \<open>buildImports\<close>: every clean name of every resolved
  field type is added to \<open>referencedTypes\<close>.
\<close>

fun addPropertyImports ::
  "nat \<Rightarrow> valueSets \<Rightarrow> Property list \<Rightarrow> string list \<Rightarrow> error + string list" where
  "addPropertyImports fuel vs [] referencedTypes = Inr referencedTypes"
| "addPropertyImports fuel vs (p # ps) referencedTypes =
     (case getTypeScriptProperties fuel vs p of
        Inl e \<Rightarrow> Inl e
      | Inr typeScriptProperties \<Rightarrow>
          addPropertyImports fuel vs ps
            (fold set_add (concat (map (\<lambda>(n, typeName). cleanReferencedType typeName)
               typeScriptProperties)) referencedTypes))"

text \<open>
  \<open>buildImports\<close> threads the two sets \<open>(includedTypes, referencedTypes)\<close> through
  the node, its properties and its subtypes.
\<close>

fun buildImports ::
    "nat \<Rightarrow> valueSets \<Rightarrow> FhirType \<Rightarrow> string list \<times> string list \<Rightarrow> error + string list \<times> string list"
  and buildImports_subTypes ::
    "nat \<Rightarrow> valueSets \<Rightarrow> FhirType list \<Rightarrow> string list \<times> string list \<Rightarrow> error + string list \<times> string list"
where
  "buildImports fuel vs (FhirType f subs) acc =
     (case addPropertyImports fuel vs (properties f) (snd acc) of
        Inl e \<Rightarrow> Inl e
      | Inr referencedTypes \<Rightarrow>
          (case buildImports_subTypes fuel vs subs (set_add (outputName f) (fst acc), referencedTypes) of
             Inl e \<Rightarrow> Inl e
           | Inr (includedTypes, referencedTypes') \<Rightarrow>
               Inr (includedTypes,
                    if outputName f = ''Reference'' then set_add ''Resource'' referencedTypes'
                    else referencedTypes')))"
| "buildImports_subTypes fuel vs [] acc = Inr acc"
| "buildImports_subTypes fuel vs (t # ts) acc =
     (case buildImports fuel vs t acc of
        Inl e \<Rightarrow> Inl e
      | Inr acc' \<Rightarrow> buildImports_subTypes fuel vs ts acc')"

subsection \<open>Emission\<close>

text \<open>
  The class \<open>FileBuilder\<close> and the function \<open>wordWrap\<close> come from the module
  \<open>./filebuilder\<close>, which is not among the sources.  A file is therefore modelled
  by the sequence of calls made on its builder, starting from \<open>new FileBuilder()\<close>:
  the text of the file is what the builder renders from them.  A call
  \<open>generateJavadoc(b, text)\<close> with a non-empty text is one event, since its lines are
  those of \<open>wordWrap\<close>.
\<close>

datatype emit = Append string | NewLine | IndentInc | IndentDec | Javadoc string

definition generateJavadoc :: "string option \<Rightarrow> emit list" where
  "generateJavadoc text = (if truthy text then [Javadoc (the text)] else [])"

definition importLine :: "string \<Rightarrow> emit" where
  "importLine n = Append (''import { '' @ n @ '' } from '' @ apos @ ''./'' @ n @ apos @ '';'')"

definition exportLine :: "string \<Rightarrow> emit" where
  "exportLine n = Append (''export * from '' @ apos @ ''./'' @ n @ apos @ '';'')"

definition writeIndexFile :: "string list \<Rightarrow> emit list" where
  "writeIndexFile names =
     map exportLine
       (filter (\<lambda>resourceType. \<not> (resourceType = ''MoneyQuantity'' \<or> resourceType = ''SimpleQuantity''))
          (sort (names @ [''Resource'', ''ResourceType''])))"

definition writeResourceFile :: "string list \<Rightarrow> emit list" where
  "writeResourceFile names =
     map importLine names @ [NewLine] @
     concat (map (\<lambda>i.
       if i = 0 then [Append (''export type Resource = '' @ names ! 0), IndentInc]
       else if i \<noteq> length names - 1 then [Append (''| '' @ names ! i)]
       else [Append (''| '' @ names ! i @ '';'')]) [0..<length names])"

definition writeResourceTypeFile :: "emit list" where
  "writeResourceTypeFile =
     [Append (''import { Resource } from '' @ apos @ ''./Resource'' @ apos @ '';''),
      NewLine,
      Append (''export type ResourceType = Resource['' @ apos @ ''resourceType'' @ apos @ ''];''),
      Append ''export type ExtractResource<K extends ResourceType> = Extract<Resource, { resourceType: K }>;'']"

definition writeInterfaceProperty :: "nat \<Rightarrow> valueSets \<Rightarrow> Property \<Rightarrow> error + emit list" where
  "writeInterfaceProperty fuel vs property =
     (case getTypeScriptProperties fuel vs property of
        Inl e \<Rightarrow> Inl e
      | Inr typeScriptProperties \<Rightarrow>
          Inr (concat (map (\<lambda>(n, typeName).
                 [NewLine] @ generateJavadoc (definition_text (pdefinition property)) @
                 [Append (n @ ''?: '' @ typeName @ '';'')]) typeScriptProperties)))"

definition genericTypes :: "string list" where
  "genericTypes = [''Bundle'', ''BundleEntry'', ''Reference'']"

text \<open>
  \<open>writeInterface\<close>.  The subtypes are sorted by \<open>localeCompare\<close> on their names,
  a comparison that depends on the locale of the process: \<open>collate\<close> maps a name to
  its position in that order.  The source sorts the array in place; the sort is
  stable and nothing else reads the order of \<open>subTypes\<close>, so the model sorts at the
  visit.
\<close>

fun writeInterface ::
    "(string \<Rightarrow> 'k::linorder) \<Rightarrow> nat \<Rightarrow> valueSets \<Rightarrow> FhirType \<Rightarrow> error + emit list"
  and writeInterface_subTypes ::
    "(string \<Rightarrow> 'k::linorder) \<Rightarrow> nat \<Rightarrow> valueSets \<Rightarrow> FhirType list \<Rightarrow> error + emit list"
where
  "writeInterface collate fuel vs (FhirType f subs) =
     (if properties f = [] then Inr []
      else
        (let resourceType = outputName f;
             genericModifier =
               (if resourceType \<in> set genericTypes then ''<T extends Resource = Resource>'' else [])
         in case sequence_results (map (writeInterfaceProperty fuel vs) (properties f)) of
              Inl e \<Rightarrow> Inl e
            | Inr props \<Rightarrow>
                (case writeInterface_subTypes collate fuel vs subs of
                   Inl e \<Rightarrow> Inl e
                 | Inr nested \<Rightarrow>
                     Inr ([NewLine] @ generateJavadoc (description (tdefinition f)) @
                          [Append (''export interface '' @ resourceType @ genericModifier @ '' {''),
                           IndentInc] @
                          (if resource f
                           then [NewLine] @
                                generateJavadoc (Some (''This is a '' @ resourceType @ '' resource'')) @
                                [Append (''readonly resourceType: '' @ apos @ resourceType @ apos @ '';'')]
                           else []) @
                          concat (map (\<lambda>out. NewLine # out) props) @
                          (if outputName f = ''Reference''
                           then [NewLine] @
                                generateJavadoc (Some ''Optional Resource referred to by this reference.'') @
                                [Append ''resource?: T;'']
                           else []) @
                          [IndentDec, Append ''}''] @ nested))))"
| "writeInterface_subTypes collate fuel vs subs =
     (case sequence_results (map (writeInterface collate fuel vs)
             (sort_key (\<lambda>t. collate (outputName (node t))) subs)) of
        Inl e \<Rightarrow> Inl e
      | Inr outs \<Rightarrow> Inr (concat outs))"

text \<open>The names imported by a unit: the sorted referenced types that are not included.\<close>

definition importedNames :: "string list \<times> string list \<Rightarrow> string list" where
  "importedNames acc = filter (\<lambda>referencedType. referencedType \<notin> set (fst acc)) (sort (snd acc))"

text \<open>
  \<open>writeInterfaceFile\<close>: no file for a node without properties and subtypes,
  otherwise the file name and the calls on its builder.
\<close>

definition writeInterfaceFile ::
  "(string \<Rightarrow> 'k::linorder) \<Rightarrow> nat \<Rightarrow> valueSets \<Rightarrow> FhirType \<Rightarrow> error + (string \<times> emit list) option" where
  "writeInterfaceFile collate fuel vs fhirType =
     (if properties (node fhirType) = [] \<and> subTypes fhirType = [] then Inr None
      else
        (case buildImports fuel vs fhirType ([], []) of
           Inl e \<Rightarrow> Inl e
         | Inr acc \<Rightarrow>
             (case writeInterface collate fuel vs fhirType of
                Inl e \<Rightarrow> Inl e
              | Inr body \<Rightarrow>
                  Inr (Some (outputName (node fhirType) @ ''.d.ts'',
                             map importLine (importedNames acc) @ body)))))"

subsection \<open>The generation run\<close>

text \<open>
  The module-level state: the array \<open>fhirTypes\<close>, the object \<open>fhirTypesMap\<close> and
  the map \<open>valueSets\<close>.  Every node is pushed on \<open>fhirTypes\<close> when it is built, so a
  reference to a node is its position in that array, and the second component of an
  element is the array \<open>subTypes\<close> of the node, a list of references.
\<close>

record module_state =
  fhirTypes :: "(FhirTypeFields \<times> nat list) list"
  fhirTypesMap :: "string \<rightharpoonup> nat"
  valueSets :: valueSets

definition initial_state :: module_state where
  "initial_state = \<lparr>fhirTypes = [], fhirTypesMap = Map.empty, valueSets = Map.empty\<rparr>"

text \<open>
  The loop that fills \<open>parentTypes\<close>, an object used as a dictionary: assigning to
  an existing key keeps its place in the enumeration order, a new key goes last.
\<close>

definition buildParentTypes :: "(FhirTypeFields \<times> nat list) list \<Rightarrow> (string \<times> nat) list" where
  "buildParentTypes store =
     fold (\<lambda>i parentTypes.
             if \<not> truthy (parentType (fst (store ! i)))
             then AList.update (outputName (fst (store ! i))) i parentTypes
             else parentTypes)
       [0..<length store] []"

text \<open>
  The loop that pushes every node with a parent on the \<open>subTypes\<close> of the node that
  \<open>fhirTypesMap\<close> holds under the parent's name.  When there is none the source
  reads a field of \<open>undefined\<close>; the pushes made before that stay.
\<close>

fun linkSubTypes ::
  "nat list \<Rightarrow> (string \<rightharpoonup> nat) \<Rightarrow> (FhirTypeFields \<times> nat list) list \<Rightarrow>
     (FhirTypeFields \<times> nat list) list \<times> error option" where
  "linkSubTypes [] m store = (store, None)"
| "linkSubTypes (i # rest) m store =
     (if truthy (parentType (fst (store ! i))) then
        (case m (the (parentType (fst (store ! i)))) of
           None \<Rightarrow> (store, Some TypeError)
         | Some j \<Rightarrow> linkSubTypes rest m (store[j := (fst (store ! j), snd (store ! j) @ [i])]))
      else linkSubTypes rest m store)"

text \<open>
  The node at a reference, read through its references as a value of \<open>FhirType\<close>.
  The recursion of \<open>buildImports\<close> and \<open>writeInterface\<close> through \<open>subTypes\<close> ends
  only when no node is reached twice on a path; the first argument bounds the depth,
  and \<open>None\<close> is the call stack running out.
\<close>

fun materialize :: "nat \<Rightarrow> (FhirTypeFields \<times> nat list) list \<Rightarrow> nat \<Rightarrow> FhirType option" where
  "materialize 0 store i = None"
| "materialize (Suc n) store i =
     (if i < length store then
        (case those (map (materialize n store) (snd (store ! i))) of
           None \<Rightarrow> None
         | Some subs \<Rightarrow> Some (FhirType (fst (store ! i)) subs))
      else None)"

text \<open>
  \<open>Object.values(parentTypes).forEach(writeInterfaceFile)\<close>: the files written
  before an exception stay written.  A path through more nodes than the store holds
  repeats a node, so the bound on the depth is the size of the store.
\<close>

fun writeInterfaceFiles ::
  "(string \<Rightarrow> 'k::linorder) \<Rightarrow> nat \<Rightarrow> valueSets \<Rightarrow> (FhirTypeFields \<times> nat list) list \<Rightarrow>
     nat list \<Rightarrow> (string \<times> emit list) list \<times> error option" where
  "writeInterfaceFiles collate fuel vs store [] = ([], None)"
| "writeInterfaceFiles collate fuel vs store (i # rest) =
     (case materialize (Suc (length store)) store i of
        None \<Rightarrow> ([], Some RangeError)
      | Some fhirType \<Rightarrow>
          (case writeInterfaceFile collate fuel vs fhirType of
             Inl e \<Rightarrow> ([], Some e)
           | Inr written \<Rightarrow>
               (let (files, err) = writeInterfaceFiles collate fuel vs store rest
                in ((case written of None \<Rightarrow> [] | Some file \<Rightarrow> [file]) @ files, err))))"

text \<open>
  \<open>main\<close>.  Its inputs are the entries of the schema index \<open>globalSchema.types\<close>, as
  left by the indexing of the three definition bundles, and the code systems and
  value sets of the value-set bundle with their URLs.  The result is the list of the
  files written, in order, with the exception that ended the run if there is one,
  and the module-level state left behind.
\<close>

definition main ::
  "(string \<Rightarrow> 'k::linorder) \<Rightarrow> nat \<Rightarrow> (string \<times> TypeSchema) list \<Rightarrow> (string \<times> vs_resource) list \<Rightarrow>
     module_state \<Rightarrow> ((string \<times> emit list) list \<times> error option) \<times> module_state" where
  "main collate fuel schema valueSetBundle s =
     (let vs = fold (\<lambda>(url, res) m. m(url \<mapsto> res)) valueSetBundle (valueSets s);
          built = List.map_filter (\<lambda>(resourceType, definition). buildType resourceType definition) schema;
          n0 = length (fhirTypes s);
          store1 = fhirTypes s @ map (\<lambda>f. (f, [])) built;
          map1 = fold (\<lambda>(i, f) m. m(outputName f \<mapsto> i)) (zip [n0..<n0 + length built] built)
                   (fhirTypesMap s);
          parentTypes = buildParentTypes store1;
          (store2, linkError) = linkSubTypes [0..<length store1] map1 store1;
          s' = \<lparr>fhirTypes = store2, fhirTypesMap = map1, valueSets = vs\<rparr>
      in case linkError of
           Some e \<Rightarrow> (([], Some e), s')
         | None \<Rightarrow>
             (let names = sort (map fst parentTypes);
                  resourceNames = sort (map fst (filter (\<lambda>e. resource (fst (store2 ! snd e))) parentTypes));
                  aggregate = [(''index.d.ts'', writeIndexFile names),
                               (''Resource.d.ts'', writeResourceFile resourceNames),
                               (''ResourceType.d.ts'', writeResourceTypeFile)];
                  (files, err) = writeInterfaceFiles collate fuel vs store2 (map snd parentTypes)
              in ((aggregate @ files, err), s')))"

subsection \<open>Notions used to state the properties\<close>

text \<open>
  The two hard-coded tests at the head of \<open>getTypeScriptProperties\<close>: a field
  \<open>resource\<close> of three owning types, and \<open>Bundle.entry\<close>.
\<close>

definition genericCarrierField :: "Property \<Rightarrow> bool" where
  "genericCarrierField p =
     ((name p = ''resource'' \<and>
       resourceType p \<in> set [''BundleEntry'', ''OperationOutcome'', ''Reference'']) \<or>
      (resourceType p = ''Bundle'' \<and> name p = ''entry''))"

text \<open>The same property with another upper cardinality.\<close>

definition withMax :: "string option \<Rightarrow> Property \<Rightarrow> Property" where
  "withMax m p = p\<lparr>pdefinition := (pdefinition p)\<lparr>max_card := m\<rparr>\<rparr>"

text \<open>\<open>t\<close> is the sequence type over \<open>base\<close>, parenthesized or not.\<close>

definition sequenceOf :: "string \<Rightarrow> string \<Rightarrow> bool" where
  "sequenceOf base t = (t = base @ ''[]'' \<or> t = ''('' @ base @ '')[]'')"

text \<open>The union of string literals \<^verbatim>\<open>'a' | 'b' | 'c'\<close> over a list of codes.\<close>

definition literalUnion :: "string list \<Rightarrow> string" where
  "literalUnion codes = apos @ join codes unionSep @ apos"

text \<open>The three value-set URLs that \<open>getTypeScriptTypeForProperty\<close> never expands.\<close>

definition exemptValueSets :: "string list" where
  "exemptValueSets = [''http://hl7.org/fhir/ValueSet/resource-types|4.0.1'',
     ''http://hl7.org/fhir/ValueSet/all-types|4.0.1'',
     ''http://hl7.org/fhir/ValueSet/defined-types|4.0.1'']"

text \<open>A type schema without the properties that \<open>buildType\<close> skips.\<close>

definition withoutUnderscore :: "TypeSchema \<Rightarrow> TypeSchema" where
  "withoutUnderscore d =
     d\<lparr>ts_properties := map_option (filter (\<lambda>(n, e). \<not> startsWith n ''_'')) (ts_properties d)\<rparr>"

text \<open>
  The names defined inside an emission unit and the properties declared in it: those
  of the node and of its nested subtypes, at every depth.
\<close>

fun unitNames :: "FhirType \<Rightarrow> string list" where
  "unitNames (FhirType f subs) = outputName f # concat (map unitNames subs)"

fun unitProperties :: "FhirType \<Rightarrow> Property list" where
  "unitProperties (FhirType f subs) = properties f @ concat (map unitProperties subs)"

text \<open>
  The type names that the resolved field types of a property mention, and those
  mentioned by the properties of a list that are not generic-carrier fields.
\<close>

definition propertyReferences :: "nat \<Rightarrow> valueSets \<Rightarrow> Property \<Rightarrow> string set" where
  "propertyReferences fuel vs p =
     (case getTypeScriptProperties fuel vs p of
        Inl e \<Rightarrow> {}
      | Inr fs \<Rightarrow> (\<Union>(n, t) \<in> set fs. set (cleanReferencedType t)))"

definition concreteReferences :: "nat \<Rightarrow> valueSets \<Rightarrow> Property list \<Rightarrow> string set" where
  "concreteReferences fuel vs ps =
     (\<Union>p \<in> {p \<in> set ps. \<not> genericCarrierField p}. propertyReferences fuel vs p)"

subsection \<open>Sample inputs\<close>

definition emptyPathProperty :: Property where
  "emptyPathProperty = \<lparr>resourceType = ''Container'', name = ''item'',
     pdefinition = \<lparr>contentReference = Some ''#'', max_card = Some ''1'', types = None,
       binding = None, definition_text = None\<rparr>\<rparr>"

definition containerItem :: Property where
  "containerItem = \<lparr>resourceType = ''Container'', name = ''item'',
     pdefinition = \<lparr>contentReference = Some ''#Container.item.detail'', max_card = Some ''*'',
       types = None, binding = None, definition_text = None\<rparr>\<rparr>"

definition allTypesCorpus :: valueSets where
  "allTypesCorpus = [''http://hl7.org/fhir/ValueSet/all-types'' \<mapsto>
     ValueSet (Some \<lparr>compose_include = Some [\<lparr>inc_concept =
       Some [\<lparr>inc_code = Some ''a''\<rparr>, \<lparr>inc_code = Some ''b''\<rparr>, \<lparr>inc_code = Some ''c''\<rparr>],
       inc_system = None\<rparr>]\<rparr>)]"

text \<open>A value set whose second inclusion rule repeats a code of the first.\<close>

definition overlapCorpus :: valueSets where
  "overlapCorpus = [''http://x/vs'' \<mapsto>
     ValueSet (Some \<lparr>compose_include = Some [
       \<lparr>inc_concept = Some [\<lparr>inc_code = Some ''a''\<rparr>, \<lparr>inc_code = Some ''b''\<rparr>], inc_system = None\<rparr>,
       \<lparr>inc_concept = None, inc_system = Some ''http://x/cs''\<rparr>]\<rparr>),
     ''http://x/cs'' \<mapsto>
       CodeSystem (Some [CodeSystemConcept (Some ''b'') (Some [CodeSystemConcept (Some ''c'') None])])]"

definition stringCode :: ElementDefinitionType where
  "stringCode = \<lparr>code = ''code'', targetProfile = None\<rparr>"

definition boundProperty :: "string \<Rightarrow> string \<Rightarrow> Property" where
  "boundProperty url m = \<lparr>resourceType = ''Sample'', name = ''status'',
     pdefinition = \<lparr>contentReference = None, max_card = Some m, types = Some [stringCode],
       binding = Some \<lparr>strength = Some ''required'', valueSet = Some url\<rparr>,
       definition_text = None\<rparr>\<rparr>"

definition bundleEntrySingle :: Property where
  "bundleEntrySingle = \<lparr>resourceType = ''Bundle'', name = ''entry'',
      pdefinition = \<lparr>contentReference = None, max_card = Some ''1'',
        types = Some [\<lparr>code = ''BackboneElement'', targetProfile = None\<rparr>],
        binding = None, definition_text = None\<rparr>\<rparr>"

definition underscoreSchema :: TypeSchema where
  "underscoreSchema = \<lparr>description = Some ''A sample'', ts_parentType = None,
     ts_properties = Some [(''id'', \<lparr>contentReference = None, max_card = Some ''1'',
         types = Some [stringCode], binding = None, definition_text = None\<rparr>),
       (''_id'', \<lparr>contentReference = None, max_card = Some ''1'',
         types = Some [\<lparr>code = ''Element'', targetProfile = None\<rparr>], binding = None,
         definition_text = None\<rparr>)]\<rparr>"

definition sampleFields :: FhirTypeFields where
  "sampleFields = \<lparr>tdefinition = underscoreSchema, inputName = ''Sample'', parentType = None,
     outputName = ''Sample'',
     properties = [\<lparr>resourceType = ''Sample'', name = ''id'', pdefinition =
        \<lparr>contentReference = None, max_card = Some ''1'',
         types = Some [stringCode], binding = None, definition_text = None\<rparr>\<rparr>],
     resource = False, domainResource = False\<rparr>"

definition subjectProperty :: Property where
  "subjectProperty = \<lparr>resourceType = ''Foo'', name = ''subject'',
     pdefinition = \<lparr>contentReference = None, max_card = Some ''1'',
       types = Some [\<lparr>code = ''Reference'',
         targetProfile = Some [''http://hl7.org/fhir/StructureDefinition/Patient'']\<rparr>],
       binding = None, definition_text = None\<rparr>\<rparr>"

definition fooUnit :: FhirType where
  "fooUnit = FhirType \<lparr>tdefinition = \<lparr>description = None, ts_parentType = None, ts_properties = None\<rparr>,
     inputName = ''Foo'', parentType = None, outputName = ''Foo'',
     properties = [subjectProperty], resource = False, domainResource = False\<rparr> []"

definition referenceProperty :: Property where
  "referenceProperty = \<lparr>resourceType = ''Reference'', name = ''reference'',
     pdefinition = \<lparr>contentReference = None, max_card = Some ''1'',
       types = Some [\<lparr>code = ''string'', targetProfile = None\<rparr>],
       binding = None, definition_text = None\<rparr>\<rparr>"

definition referenceUnit :: FhirType where
  "referenceUnit = FhirType \<lparr>tdefinition = \<lparr>description = None, ts_parentType = None, ts_properties = None\<rparr>,
     inputName = ''Reference'', parentType = None, outputName = ''Reference'',
     properties = [referenceProperty], resource = False, domainResource = False\<rparr> []"

definition referenceFile :: "emit list" where
  "referenceFile = [importLine ''Resource'',
        NewLine, Append ''export interface Reference<T extends Resource = Resource> {'', IndentInc,
        NewLine, NewLine, Append ''reference?: string;'',
        NewLine, Javadoc ''Optional Resource referred to by this reference.'', Append ''resource?: T;'',
        IndentDec, Append ''}'']"

text \<open>A top-level type with one nested type, as a schema index and as an emission unit.\<close>

definition contactDefinition :: ElementDefinition where
  "contactDefinition = \<lparr>contentReference = None, max_card = Some ''*'',
     types = Some [\<lparr>code = ''BackboneElement'', targetProfile = None\<rparr>],
     binding = None, definition_text = None\<rparr>"

definition nameDefinition :: ElementDefinition where
  "nameDefinition = \<lparr>contentReference = None, max_card = Some ''1'',
     types = Some [\<lparr>code = ''HumanName'', targetProfile = None\<rparr>],
     binding = None, definition_text = None\<rparr>"

definition patientType :: TypeSchema where
  "patientType = \<lparr>description = None, ts_parentType = None,
     ts_properties = Some [(''contact'', contactDefinition)]\<rparr>"

definition patientContactType :: TypeSchema where
  "patientContactType = \<lparr>description = None, ts_parentType = Some ''Patient'',
     ts_properties = Some [(''name'', nameDefinition)]\<rparr>"

definition patientSchema :: "(string \<times> TypeSchema) list" where
  "patientSchema = [(''Patient'', patientType), (''PatientContact'', patientContactType)]"

definition patientFields :: FhirTypeFields where
  "patientFields = the (buildType ''Patient'' patientType)"

definition contactFields :: FhirTypeFields where
  "contactFields = the (buildType ''PatientContact'' patientContactType)"

definition patientUnit :: FhirType where
  "patientUnit = FhirType patientFields [FhirType contactFields []]"

definition patientInterface :: "emit list" where
  "patientInterface = [NewLine, Append ''export interface Patient {'', IndentInc,
     NewLine, NewLine, Append ''contact?: PatientContact[];'', IndentDec, Append ''}'']"

definition contactInterface :: "emit list" where
  "contactInterface = [NewLine, Append ''export interface PatientContact {'', IndentInc,
     NewLine, NewLine, Append ''name?: HumanName;'', IndentDec, Append ''}'']"

section \<open>Properties\<close>

subsection \<open>Helper facts\<close>

lemma includes_str_iff: "includes_str s p \<longleftrightarrow> (\<exists>a b. s = a @ p @ b)"
proof (induction s)
  case Nil
  then show ?case by auto
next
  case (Cons c cs)
  show ?case
  proof
    assume "includes_str (c # cs) p"
    then consider "prefix p (c # cs)" | "includes_str cs p" by auto
    then show "\<exists>a b. c # cs = a @ p @ b"
    proof cases
      case 1
      then obtain b where "c # cs = p @ b" by (auto simp: prefix_def)
      then have "c # cs = [] @ p @ b" by simp
      then show ?thesis by blast
    next
      case 2
      then obtain a b where "cs = a @ p @ b" using Cons.IH by auto
      then have "c # cs = (c # a) @ p @ b" by simp
      then show ?thesis by blast
    qed
  next
    assume "\<exists>a b. c # cs = a @ p @ b"
    then obtain a b where ab: "c # cs = a @ p @ b" by auto
    show "includes_str (c # cs) p"
    proof (cases a)
      case Nil
      then have "prefix p (c # cs)" using ab by (simp add: prefix_def)
      then show ?thesis by simp
    next
      case (Cons a0 as)
      then have "cs = as @ p @ b" using ab by simp
      then have "includes_str cs p" using Cons.IH by blast
      then show ?thesis by simp
    qed
  qed
qed

lemma literalUnion_includes_sep:
  assumes "2 \<le> length codes"
  shows "includes_str (literalUnion codes) unionSep"
proof -
  obtain x y ys where "codes = x # y # ys"
    using assms by (cases codes; cases "tl codes") auto
  then have "literalUnion codes = (apos @ x) @ unionSep @ (join (y # ys) unionSep @ apos)"
    by (simp add: literalUnion_def)
  then show ?thesis unfolding includes_str_iff by blast
qed

lemma withMax_simps:
  "resourceType (withMax m p) = resourceType p"
  "name (withMax m p) = name p"
  "requiredValueSet (withMax m p) = requiredValueSet p"
  "max_card (pdefinition (withMax m p)) = m"
  "contentReference (pdefinition (withMax m p)) = contentReference (pdefinition p)"
  "types (pdefinition (withMax m p)) = types (pdefinition p)"
  by (simp_all add: withMax_def requiredValueSet_def)

lemma switchBaseType_withMax:
  "switchBaseType fuel vs (withMax m p) td = switchBaseType fuel vs p td"
  unfolding switchBaseType_def withMax_simps by (rule refl)

lemma stripVersion_samples:
  "stripVersion ''http://hl7.org/fhir/ValueSet/all-types|4.0.1'' = ''http://hl7.org/fhir/ValueSet/all-types''"
  "stripVersion ''http://x/vs'' = ''http://x/vs''"
  "stripVersion ''http://x/cs'' = ''http://x/cs''"
  "stripVersion ''http://x/unknown'' = ''http://x/unknown''"
  by (simp_all add: stripVersion_def split_def)

lemma overlapCorpus_values:
  "getValueSetValues 2 overlapCorpus ''http://x/vs'' = Some [''a'', ''b'', ''b'', ''c'']"
  by (simp add: numeral_2_eq_2 stripVersion_samples overlapCorpus_def includeConceptValues_def
      truthy_def)

lemma not_includes_string: "\<not> includes_str ''string'' unionSep"
  by (simp add: unionSep_def apos_def)

lemma forProperty_single:
  "m \<noteq> Some ''*'' \<Longrightarrow>
   getTypeScriptTypeForProperty fuel vs (withMax m p) td = switchBaseType fuel vs p td"
  by (simp add: getTypeScriptTypeForProperty_def switchBaseType_withMax withMax_simps
      split: sum.splits)

lemma forProperty_many:
  "rel_sum (=) sequenceOf (switchBaseType fuel vs p td)
     (getTypeScriptTypeForProperty fuel vs (withMax (Some ''*'') p) td)"
  by (cases "switchBaseType fuel vs p td")
     (simp_all add: getTypeScriptTypeForProperty_def switchBaseType_withMax withMax_simps
       sequenceOf_def)

lemma sequence_results_rel:
  assumes "\<And>x. x \<in> set xs \<Longrightarrow> rel_sum (=) R (f x) (g x)"
  shows "rel_sum (=) (list_all2 R) (sequence_results (map f xs)) (sequence_results (map g xs))"
  using assms
proof (induction xs)
  case Nil
  then show ?case by simp
next
  case (Cons x xs)
  have hd: "rel_sum (=) R (f x) (g x)" using Cons.prems by simp
  have tl: "rel_sum (=) (list_all2 R) (sequence_results (map f xs)) (sequence_results (map g xs))"
    using Cons by simp
  show ?case
  proof (cases "f x")
    case (Inl e)
    then show ?thesis using hd by (cases "g x") auto
  next
    case (Inr a)
    then obtain b where b: "g x = Inr b" "R a b" using hd by (cases "g x") auto
    show ?thesis using tl Inr b
      by (cases "sequence_results (map f xs)"; cases "sequence_results (map g xs)") auto
  qed
qed

lemma buildType_withoutUnderscore:
  "buildType rt (withoutUnderscore d) =
     map_option (\<lambda>f. f\<lparr>tdefinition := withoutUnderscore d\<rparr>) (buildType rt d)"
  by (cases "ts_properties d") (simp_all add: buildType_def withoutUnderscore_def Let_def)

lemma buildType_no_underscore:
  "buildType rt d = Some f \<Longrightarrow> p \<in> set (properties f) \<Longrightarrow> \<not> startsWith (name p) ''_''"
  by (cases "ts_properties d") (auto simp: buildType_def Let_def)

lemma writeInterfaceFile_definition:
  assumes "description d' = description (tdefinition f)"
  shows "writeInterfaceFile collate fuel vs (FhirType (f\<lparr>tdefinition := d'\<rparr>) subs) =
         writeInterfaceFile collate fuel vs (FhirType f subs)"
proof -
  have r: "properties (f\<lparr>tdefinition := d'\<rparr>) = properties f"
    "outputName (f\<lparr>tdefinition := d'\<rparr>) = outputName f"
    "resource (f\<lparr>tdefinition := d'\<rparr>) = resource f"
    "description (tdefinition (f\<lparr>tdefinition := d'\<rparr>)) = description (tdefinition f)"
    using assms by simp_all
  have i: "buildImports fuel vs (FhirType (f\<lparr>tdefinition := d'\<rparr>) subs) ([], []) =
      buildImports fuel vs (FhirType f subs) ([], [])"
    unfolding buildImports.simps r by (rule refl)
  have w: "writeInterface collate fuel vs (FhirType (f\<lparr>tdefinition := d'\<rparr>) subs) =
      writeInterface collate fuel vs (FhirType f subs)"
    unfolding writeInterface.simps r by (rule refl)
  show ?thesis
    unfolding writeInterfaceFile_def i w FhirType.sel r by (rule refl)
qed

lemma set_fold_set_add: "set (fold set_add xs acc) = set xs \<union> set acc"
  by (induction xs arbitrary: acc) (auto simp: set_add_def)

lemma clean_carrier:
  assumes "genericCarrierField p" and "getTypeScriptProperties fuel vs p = Inr fs"
    and "(n, t) \<in> set fs"
  shows "set (cleanReferencedType t) \<subseteq> {''Resource''}"
proof -
  have "fs = [(''resource'', ''T'')] \<or> fs = [(''entry'', ''BundleEntry<T>[]'')]"
    using assms(1,2) by (auto simp: genericCarrierField_def getTypeScriptProperties_def split: if_splits)
  then have "t = ''T'' \<or> t = ''BundleEntry<T>[]''" using assms(3) by auto
  then show ?thesis
    by (auto simp: cleanReferencedType_def startsWith_def apos_def isLowerCase_def charAt0_def
        toLowerCase_char_def)
qed

lemma property_references_bound:
  assumes "getTypeScriptProperties fuel vs p = Inr fs"
  shows "set (concat (map (\<lambda>(n, typeName). cleanReferencedType typeName) fs))
         \<subseteq> insert ''Resource'' (concreteReferences fuel vs [p])"
proof (cases "genericCarrierField p")
  case True
  then show ?thesis using clean_carrier[OF True assms] by auto
next
  case False
  then show ?thesis
    using assms by (auto simp: concreteReferences_def propertyReferences_def)
qed

lemma concreteReferences_append:
  "concreteReferences fuel vs (ps @ qs) = concreteReferences fuel vs ps \<union> concreteReferences fuel vs qs"
  by (auto simp: concreteReferences_def)

lemma concreteReferences_Cons:
  "concreteReferences fuel vs (p # ps) = concreteReferences fuel vs [p] \<union> concreteReferences fuel vs ps"
  using concreteReferences_append[of fuel vs "[p]" ps] by simp

lemma addPropertyImports_bound:
  "addPropertyImports fuel vs ps refs = Inr refs' \<Longrightarrow>
   set refs' \<subseteq> set refs \<union> insert ''Resource'' (concreteReferences fuel vs ps)"
proof (induction ps arbitrary: refs)
  case Nil
  then show ?case by auto
next
  case (Cons p ps)
  from Cons.prems obtain fs where fs: "getTypeScriptProperties fuel vs p = Inr fs"
    and rest: "addPropertyImports fuel vs ps
       (fold set_add (concat (map (\<lambda>(n, typeName). cleanReferencedType typeName) fs)) refs) = Inr refs'"
    by (auto split: sum.splits)
  from Cons.IH[OF rest] property_references_bound[OF fs]
  show ?case
    unfolding concreteReferences_Cons[of fuel vs p ps] set_fold_set_add by blast
qed

lemma buildImports_bound:
  "buildImports fuel vs t acc = Inr acc' \<Longrightarrow>
     set (fst acc') = set (fst acc) \<union> set (unitNames t) \<and>
     set (snd acc') \<subseteq> set (snd acc) \<union> insert ''Resource'' (concreteReferences fuel vs (unitProperties t))"
  "buildImports_subTypes fuel vs ts acc = Inr acc' \<Longrightarrow>
     set (fst acc') = set (fst acc) \<union> set (concat (map unitNames ts)) \<and>
     set (snd acc') \<subseteq> set (snd acc) \<union>
        insert ''Resource'' (concreteReferences fuel vs (concat (map unitProperties ts)))"
proof (induction fuel vs t acc and fuel vs ts acc arbitrary: acc' and acc'
    rule: buildImports_buildImports_subTypes.induct)
  case (1 fuel vs f subs acc)
  from "1.prems" obtain refs1 where r1: "addPropertyImports fuel vs (properties f) (snd acc) = Inr refs1"
    by (auto split: sum.splits)
  from "1.prems" r1 obtain incl2 refs2 where
    r2: "buildImports_subTypes fuel vs subs (set_add (outputName f) (fst acc), refs1) = Inr (incl2, refs2)"
    by (auto split: sum.splits)
  from "1.prems" r1 r2 have acc': "acc' = (incl2,
      if outputName f = ''Reference'' then set_add ''Resource'' refs2 else refs2)"
    by auto
  from "1.IH"[OF r1 r2] have ih:
    "set incl2 = set (set_add (outputName f) (fst acc)) \<union> set (concat (map unitNames subs))"
    "set refs2 \<subseteq> set refs1 \<union> insert ''Resource'' (concreteReferences fuel vs (concat (map unitProperties subs)))"
    by simp_all
  from addPropertyImports_bound[OF r1] have b1:
    "set refs1 \<subseteq> set (snd acc) \<union> insert ''Resource'' (concreteReferences fuel vs (properties f))" .
  have "set (fst acc') = set (fst acc) \<union> set (unitNames (FhirType f subs))"
    using ih(1) acc' by (auto simp: set_add_def)
  moreover have "set (snd acc') \<subseteq> set (snd acc) \<union>
      insert ''Resource'' (concreteReferences fuel vs (unitProperties (FhirType f subs)))"
    using ih(2) b1 acc' by (auto simp: set_add_def concreteReferences_append)
  ultimately show ?case by simp
next
  case (2 fuel vs acc)
  then show ?case by auto
next
  case (3 fuel vs t ts acc)
  from "3.prems" obtain acc1 where a1: "buildImports fuel vs t acc = Inr acc1"
    and a2: "buildImports_subTypes fuel vs ts acc1 = Inr acc'"
    by (auto split: sum.splits)
  from "3.IH"(1)[OF a1] "3.IH"(2)[OF a1 a2]
  show ?case by (auto simp: concreteReferences_append)
qed

lemma gtsp_subject: "getTypeScriptProperties 0 Map.empty subjectProperty = Inr [(''subject'', ''Reference<Patient>'')]"
  by (simp add: getTypeScriptProperties_def subjectProperty_def truthy_def endsWith_def suffix_to_prefix
      getTypeScriptTypeForProperty_def switchBaseType_def stringCodes_def dateCodes_def numberCodes_def
      referenceType_def split_def)

lemma clean_subject: "cleanReferencedType ''Reference<Patient>'' = [''Reference'', ''Patient'']"
  by (simp add: cleanReferencedType_def startsWith_def apos_def isLowerCase_def charAt0_def
      toLowerCase_char_def indexOf_def substring_def split_def)

lemma gtsp_reference: "getTypeScriptProperties 0 Map.empty referenceProperty = Inr [(''reference'', ''string'')]"
  by (simp add: getTypeScriptProperties_def referenceProperty_def truthy_def endsWith_def suffix_to_prefix
      getTypeScriptTypeForProperty_def switchBaseType_def stringCodes_def requiredValueSet_def)

lemma clean_string: "cleanReferencedType ''string'' = []"
  by (simp add: cleanReferencedType_def startsWith_def apos_def isLowerCase_def charAt0_def
      toLowerCase_char_def)

lemma patientFields_eq:
  "patientFields = \<lparr>tdefinition = patientType, inputName = ''Patient'', parentType = None,
     outputName = ''Patient'',
     properties = [\<lparr>resourceType = ''Patient'', name = ''contact'', pdefinition = contactDefinition\<rparr>],
     resource = False, domainResource = False\<rparr>"
  by (simp add: patientFields_def patientType_def buildType_def startsWith_def containsAll_def
      baseResourceProperties_def domainResourceProperties_def)

lemma contactFields_eq:
  "contactFields = \<lparr>tdefinition = patientContactType, inputName = ''PatientContact'',
     parentType = Some ''Patient'', outputName = ''PatientContact'',
     properties = [\<lparr>resourceType = ''PatientContact'', name = ''name'', pdefinition = nameDefinition\<rparr>],
     resource = False, domainResource = False\<rparr>"
  by (simp add: contactFields_def patientContactType_def buildType_def startsWith_def containsAll_def
      baseResourceProperties_def domainResourceProperties_def)

lemma gtsp_contact:
  "getTypeScriptProperties fuel vs \<lparr>resourceType = ''Patient'', name = ''contact'', pdefinition = contactDefinition\<rparr>
     = Inr [(''contact'', ''PatientContact[]'')]"
  by (simp add: getTypeScriptProperties_def contactDefinition_def truthy_def endsWith_def suffix_to_prefix
      getTypeScriptTypeForProperty_def switchBaseType_def stringCodes_def dateCodes_def numberCodes_def
      toUpperCase_char_def unionSep_def apos_def)

lemma gtsp_name:
  "getTypeScriptProperties fuel vs \<lparr>resourceType = ''PatientContact'', name = ''name'', pdefinition = nameDefinition\<rparr>
     = Inr [(''name'', ''HumanName'')]"
  by (simp add: getTypeScriptProperties_def nameDefinition_def truthy_def endsWith_def suffix_to_prefix
      getTypeScriptTypeForProperty_def switchBaseType_def stringCodes_def dateCodes_def numberCodes_def)

lemma clean_patient:
  "cleanReferencedType ''PatientContact[]'' = [''PatientContact'']"
  "cleanReferencedType ''HumanName'' = [''HumanName'']"
  by (simp_all add: cleanReferencedType_def startsWith_def apos_def isLowerCase_def charAt0_def
      toLowerCase_char_def)

lemma sample_texts:
  "definition_text contactDefinition = None"
  "definition_text nameDefinition = None"
  "description patientType = None"
  "description patientContactType = None"
  by (simp_all add: contactDefinition_def nameDefinition_def patientType_def patientContactType_def)

lemma write_contact:
  "writeInterface id fuel vs (FhirType contactFields []) = Inr contactInterface"
  by (simp add: contactFields_eq gtsp_name writeInterfaceProperty_def generateJavadoc_def truthy_def
      genericTypes_def sample_texts contactInterface_def Let_def)

lemma write_patient:
  "writeInterface id fuel vs (FhirType patientFields [FhirType contactFields []]) =
     Inr (patientInterface @ contactInterface)"
proof -
  have n: "writeInterface_subTypes id fuel vs [FhirType contactFields []] = Inr contactInterface"
    using write_contact[of fuel vs] by simp
  show ?thesis
    unfolding writeInterface.simps(1) n
    by (simp add: patientFields_eq gtsp_contact writeInterfaceProperty_def generateJavadoc_def truthy_def
      genericTypes_def sample_texts patientInterface_def Let_def)
qed

lemma imports_patient:
  "buildImports fuel vs patientUnit ([], []) = Inr ([''Patient'', ''PatientContact''], [''PatientContact'', ''HumanName''])"
  by (simp add: patientUnit_def patientFields_eq contactFields_eq gtsp_contact gtsp_name clean_patient set_add_def)

lemma patientUnit_file:
  "writeInterfaceFile id fuel vs patientUnit =
     Inr (Some (''Patient.d.ts'', importLine ''HumanName'' # patientInterface @ contactInterface))"
proof -
  have p: "properties (node patientUnit) \<noteq> []" "outputName (node patientUnit) = ''Patient''"
    by (simp_all add: patientUnit_def patientFields_eq)
  have w: "writeInterface id fuel vs patientUnit = Inr (patientInterface @ contactInterface)"
    unfolding patientUnit_def by (rule write_patient)
  show ?thesis
    unfolding writeInterfaceFile_def imports_patient w
    using p by (simp add: importedNames_def)
qed

lemma buildType_sample: "buildType ''Sample'' underscoreSchema = Some sampleFields"
  by (simp add: buildType_def underscoreSchema_def sampleFields_def startsWith_def containsAll_def
      baseResourceProperties_def domainResourceProperties_def)

subsection \<open>Property resolution\<close>

text \<open>
  C1 (as stated, refuted).  The claim: a property whose content-reference path cannot be
  matched against the conventions makes generation abort with an error.  The
  content reference \<open>#\<close> has no path at all, yet the resolver returns a field
  \<open>item\<close> with the empty type name instead of an error.
\<close>

theorem C1_counterexample:
  "getTypeScriptProperties 0 Map.empty emptyPathProperty = Inr [(''item'', [])]"
  by (simp add: getTypeScriptProperties_def emptyPathProperty_def truthy_def split_def)

text \<open>
  C1 (amended).  For every property that carries a non-empty content reference or is
  one of the hard-coded (owning type, field name) pairs, the resolver checks nothing
  and never aborts: for every corpus and every call depth it returns exactly one field.
\<close>

theorem C1_content_reference_never_aborts:
  assumes "truthy (contentReference (pdefinition p)) \<or> genericCarrierField p"
  shows "\<exists>n t. getTypeScriptProperties fuel vs p = Inr [(n, t)]"
  using assms by (auto simp: getTypeScriptProperties_def genericCarrierField_def Let_def)

theorem C1_content_reference_never_aborts_witness:
  "(truthy (contentReference (pdefinition emptyPathProperty)) \<or>
      genericCarrierField emptyPathProperty) \<and>
   (\<exists>n t. getTypeScriptProperties 0 Map.empty emptyPathProperty = Inr [(n, t)])"
  using C1_content_reference_never_aborts[of emptyPathProperty 0 Map.empty]
  by (simp add: emptyPathProperty_def truthy_def)

text \<open>
  C2 (as stated, refuted).  The claim: \<open>item\<close> with upper cardinality \<open>*\<close> and content
  reference \<open>#Container.item.detail\<close> resolves to a sequence of \<open>ContainerItem\<close>.
  The resolver capitalizes and concatenates all three path segments.
\<close>

theorem C2_counterexample:
  "getTypeScriptProperties 0 Map.empty containerItem = Inr [(''item'', ''ContainerItemDetail[]'')] \<and>
   getTypeScriptProperties 0 Map.empty containerItem \<noteq> Inr [(''item'', ''ContainerItem[]'')]"
  by (simp add: getTypeScriptProperties_def containerItem_def truthy_def split_def
      toUpperCase_char_def)

text \<open>
  C2 (amended).  Every property named \<open>item\<close> with upper cardinality \<open>*\<close> and content
  reference \<open>#Container.item.detail\<close> resolves to exactly one field, named \<open>item\<close>,
  of type \<open>ContainerItemDetail[]\<close>, whatever its owning type, type list and binding.
\<close>

theorem C2_content_reference_all_segments:
  assumes "name p = ''item''" and "max_card (pdefinition p) = Some ''*''"
    and "contentReference (pdefinition p) = Some ''#Container.item.detail''"
  shows "getTypeScriptProperties fuel vs p = Inr [(''item'', ''ContainerItemDetail[]'')]"
  using assms
  by (simp add: getTypeScriptProperties_def truthy_def split_def toUpperCase_char_def)

theorem C2_content_reference_all_segments_witness:
  "name containerItem = ''item'' \<and> max_card (pdefinition containerItem) = Some ''*'' \<and>
   contentReference (pdefinition containerItem) = Some ''#Container.item.detail'' \<and>
   getTypeScriptProperties 3 overlapCorpus containerItem = Inr [(''item'', ''ContainerItemDetail[]'')]"
  using C2_content_reference_all_segments[of containerItem 3 overlapCorpus]
  by (simp add: containerItem_def)

text \<open>
  C3 (as stated, refuted).  The claim: every string-flavoured property with a required
  binding whose value set flattens to a non-empty code list resolves to the union of
  those literals.  The value set \<open>all-types\<close> flattens to \<open>[a, b, c]\<close> here, and the
  property bound to it still resolves to \<open>string\<close>.
\<close>

theorem C3_counterexample:
  "getValueSetValues 1 allTypesCorpus ''http://hl7.org/fhir/ValueSet/all-types|4.0.1'' =
     Some [''a'', ''b'', ''c''] \<and>
   getTypeScriptTypeForProperty 1 allTypesCorpus
     (boundProperty ''http://hl7.org/fhir/ValueSet/all-types|4.0.1'' ''1'') stringCode = Inr ''string''"
  by (simp add: stripVersion_samples allTypesCorpus_def includeConceptValues_def truthy_def
      getTypeScriptTypeForProperty_def switchBaseType_def stringCode_def stringCodes_def
      boundProperty_def requiredValueSet_def)

text \<open>
  C3 (amended).  For every string-flavoured type entry of a property with a required
  binding to a URL other than the three exempted ones, if the value set flattens to a
  non-empty code list then the resolved type is the union of exactly those literals, in
  the order of the flattening and with repeated codes kept; with upper cardinality
  \<open>*\<close> it is the sequence over that union, parenthesized when there are two codes or more.
\<close>

theorem C3_required_binding_literal_union:
  assumes "code td \<in> set stringCodes"
    and "requiredValueSet p = Some u" and "u \<notin> set exemptValueSets"
    and "getValueSetValues fuel vs u = Some codes" and "codes \<noteq> []"
  shows "\<exists>t. getTypeScriptTypeForProperty fuel vs p td = Inr t \<and>
     (if max_card (pdefinition p) = Some ''*''
      then sequenceOf (literalUnion codes) t \<and>
           (2 \<le> length codes \<longrightarrow> t = ''('' @ literalUnion codes @ '')[]'')
      else t = literalUnion codes)"
proof -
  have base: "switchBaseType fuel vs p td = Inr (literalUnion codes)"
    using assms by (simp add: switchBaseType_def exemptValueSets_def literalUnion_def)
  show ?thesis
    using literalUnion_includes_sep[of codes]
    by (auto simp: getTypeScriptTypeForProperty_def base sequenceOf_def)
qed

theorem C3_required_binding_literal_union_witness:
  "code stringCode \<in> set stringCodes \<and>
   requiredValueSet (boundProperty ''http://x/vs'' ''1'') = Some ''http://x/vs'' \<and>
   ''http://x/vs'' \<notin> set exemptValueSets \<and>
   getValueSetValues 2 overlapCorpus ''http://x/vs'' = Some [''a'', ''b'', ''b'', ''c''] \<and>
   getTypeScriptTypeForProperty 2 overlapCorpus (boundProperty ''http://x/vs'' ''1'') stringCode =
     Inr (literalUnion [''a'', ''b'', ''b'', ''c''])"
proof -
  have h1: "code stringCode \<in> set stringCodes" by (simp add: stringCode_def stringCodes_def)
  have h2: "requiredValueSet (boundProperty ''http://x/vs'' ''1'') = Some ''http://x/vs''"
    by (simp add: requiredValueSet_def boundProperty_def truthy_def)
  have h3: "''http://x/vs'' \<notin> set exemptValueSets" by (simp add: exemptValueSets_def)
  have h5: "[''a'', ''b'', ''b'', ''c''] \<noteq> []" by simp
  have m: "max_card (pdefinition (boundProperty ''http://x/vs'' ''1'')) \<noteq> Some ''*''"
    by (simp add: boundProperty_def)
  from C3_required_binding_literal_union[OF h1 h2 h3 overlapCorpus_values h5] m
  have "getTypeScriptTypeForProperty 2 overlapCorpus (boundProperty ''http://x/vs'' ''1'') stringCode =
     Inr (literalUnion [''a'', ''b'', ''b'', ''c''])" by auto
  with h1 h2 h3 overlapCorpus_values show ?thesis by blast
qed

text \<open>
  C7 (as stated, refuted).  The claim: a property bounded to one never resolves to a
  sequence type.  \<open>Bundle.entry\<close> declared with upper cardinality \<open>1\<close> resolves to
  \<open>BundleEntry<T>[]\<close>: the hard-coded pair is answered before the cardinality is read.
\<close>

theorem C7_counterexample:
  "max_card (pdefinition bundleEntrySingle) = Some ''1'' \<and>
   getTypeScriptProperties 0 Map.empty bundleEntrySingle = Inr [(''entry'', ''BundleEntry<T>[]'')]"
  by (simp add: getTypeScriptProperties_def bundleEntrySingle_def)

text \<open>
  C7 (amended).  For every property other than the hard-coded generic-carrier pairs,
  and every upper cardinality \<open>m\<close> other than \<open>*\<close>: the property resolves with \<open>m\<close> to
  the same fields as with no upper cardinality at all, and with \<open>*\<close> it fails with the
  same error or resolves to the same field names, each type being the sequence type
  (suffix \<open>[]\<close>, parenthesized or not) over the type resolved with \<open>m\<close>.
\<close>

theorem C7_sequence_iff_unbounded:
  assumes "\<not> genericCarrierField p" and "m \<noteq> Some ''*''"
  shows "rel_sum (=) (list_all2 (\<lambda>(n, t) (n', t'). n' = n \<and> sequenceOf t t'))
           (getTypeScriptProperties fuel vs (withMax m p))
           (getTypeScriptProperties fuel vs (withMax (Some ''*'') p))
       \<and> getTypeScriptProperties fuel vs (withMax m p) =
           getTypeScriptProperties fuel vs (withMax None p)"
proof -
  let ?one = "getTypeScriptProperties fuel vs (withMax m p)"
  let ?many = "getTypeScriptProperties fuel vs (withMax (Some ''*'') p)"
  have nc: "\<not> (name p = ''resource'' \<and>
         resourceType p \<in> set [''BundleEntry'', ''OperationOutcome'', ''Reference''])"
       "\<not> (resourceType p = ''Bundle'' \<and> name p = ''entry'')"
    using assms(1) by (auto simp: genericCarrierField_def)
  have step: "\<And>td. rel_sum (=) sequenceOf
      (getTypeScriptTypeForProperty fuel vs (withMax m p) td)
      (getTypeScriptTypeForProperty fuel vs (withMax (Some ''*'') p) td)"
    using forProperty_many forProperty_single[OF assms(2)] by simp
  have indep: "?one = getTypeScriptProperties fuel vs (withMax None p)"
  proof -
    have a: "\<And>td. getTypeScriptTypeForProperty fuel vs (withMax m p) td =
        switchBaseType fuel vs p td"
      using assms(2) by (rule forProperty_single)
    have b: "\<And>td. getTypeScriptTypeForProperty fuel vs (withMax None p) td =
        switchBaseType fuel vs p td"
      by (rule forProperty_single) simp
    have c: "(m = Some ''*'') = False" "(None = Some ''*'') = False"
      using assms(2) by simp_all
    show ?thesis
      unfolding getTypeScriptProperties_def withMax_simps a b c by (rule refl)
  qed
  have rel: "rel_sum (=) (list_all2 (\<lambda>(n, t) (n', t'). n' = n \<and> sequenceOf t t')) ?one ?many"
  proof (cases "truthy (contentReference (pdefinition p))")
    case True
    then show ?thesis
      unfolding getTypeScriptProperties_def withMax_simps
      using nc assms(2) by (auto simp: Let_def sequenceOf_def)
  next
    case nocr: False
    show ?thesis
    proof (cases "endsWith (name p) ''[x]''")
      case True
      show ?thesis
      proof (cases "types (pdefinition p)")
        case None
        then show ?thesis
          unfolding getTypeScriptProperties_def withMax_simps
          using nc nocr True by auto
      next
        case (Some tys)
        have "rel_sum (=) (list_all2 (\<lambda>(n, t) (n', t'). n' = n \<and> sequenceOf t t'))
          (sequence_results (map (\<lambda>propertyType.
               case getTypeScriptTypeForProperty fuel vs (withMax m p) propertyType of
                 Inl e \<Rightarrow> Inl e
               | Inr t \<Rightarrow> Inr (replace (name p) ''[x]'' [] @ capitalize (code propertyType), t)) tys))
          (sequence_results (map (\<lambda>propertyType.
               case getTypeScriptTypeForProperty fuel vs (withMax (Some ''*'') p) propertyType of
                 Inl e \<Rightarrow> Inl e
               | Inr t \<Rightarrow> Inr (replace (name p) ''[x]'' [] @ capitalize (code propertyType), t)) tys))"
        proof (rule sequence_results_rel)
          fix td
          show "rel_sum (=) (\<lambda>(n, t) (n', t'). n' = n \<and> sequenceOf t t')
            (case getTypeScriptTypeForProperty fuel vs (withMax m p) td of
                 Inl e \<Rightarrow> Inl e
               | Inr t \<Rightarrow> Inr (replace (name p) ''[x]'' [] @ capitalize (code td), t))
            (case getTypeScriptTypeForProperty fuel vs (withMax (Some ''*'') p) td of
                 Inl e \<Rightarrow> Inl e
               | Inr t \<Rightarrow> Inr (replace (name p) ''[x]'' [] @ capitalize (code td), t))"
            using step[of td]
            by (cases "getTypeScriptTypeForProperty fuel vs (withMax m p) td";
                cases "getTypeScriptTypeForProperty fuel vs (withMax (Some ''*'') p) td") auto
        qed
        then show ?thesis
          unfolding getTypeScriptProperties_def withMax_simps
          using nc nocr True Some by (auto simp: Let_def)
      qed
    next
      case False
      show ?thesis
      proof (cases "types (pdefinition p)")
        case None
        then show ?thesis
          unfolding getTypeScriptProperties_def withMax_simps
          using nc nocr False by auto
      next
        case (Some tys)
        show ?thesis
        proof (cases tys)
          case Nil
          then show ?thesis
            unfolding getTypeScriptProperties_def withMax_simps
            using nc nocr False Some by auto
        next
          case (Cons td rest)
          show ?thesis
            unfolding getTypeScriptProperties_def withMax_simps
            using nc nocr False Some Cons step[of td]
            by (cases "getTypeScriptTypeForProperty fuel vs (withMax m p) td";
                cases "getTypeScriptTypeForProperty fuel vs (withMax (Some ''*'') p) td") auto
        qed
      qed
    qed
  qed
  from rel indep show ?thesis by simp
qed

theorem C7_sequence_iff_unbounded_witness:
  "\<not> genericCarrierField (boundProperty ''http://x/vs'' ''*'') \<and> Some ''1'' \<noteq> Some ''*'' \<and>
   rel_sum (=) (list_all2 (\<lambda>(n, t) (n', t'). n' = n \<and> sequenceOf t t'))
     (getTypeScriptProperties 2 overlapCorpus (boundProperty ''http://x/vs'' ''1''))
     (getTypeScriptProperties 2 overlapCorpus (boundProperty ''http://x/vs'' ''*''))"
proof -
  have h1: "\<not> genericCarrierField (boundProperty ''http://x/vs'' ''*'')"
    by (simp add: genericCarrierField_def boundProperty_def)
  have h2: "Some ''1'' \<noteq> Some ''*''" by simp
  have w1: "withMax (Some ''1'') (boundProperty ''http://x/vs'' ''*'') = boundProperty ''http://x/vs'' ''1''"
    by (simp add: withMax_def boundProperty_def)
  have w2: "withMax (Some ''*'') (boundProperty ''http://x/vs'' ''*'') = boundProperty ''http://x/vs'' ''*''"
    by (simp add: withMax_def boundProperty_def)
  from C7_sequence_iff_unbounded[OF h1 h2, of 2 overlapCorpus] h1 h2 show ?thesis
    unfolding w1 w2 by blast
qed

text \<open>
  C8 (as stated, refuted).  The claim: a required binding whose URL is absent from the
  corpus degrades the type to \<open>string\<close>.  With an empty corpus, the binding to the
  \<open>resource-types\<close> URL resolves to \<open>ResourceType\<close>: that URL is never looked up.
\<close>

theorem C8_counterexample:
  "getTypeScriptTypeForProperty 1 Map.empty
     (boundProperty ''http://hl7.org/fhir/ValueSet/resource-types|4.0.1'' ''1'') stringCode
   = Inr ''ResourceType''"
  by (simp add: getTypeScriptTypeForProperty_def switchBaseType_def stringCode_def stringCodes_def
      boundProperty_def requiredValueSet_def truthy_def)

text \<open>
  C8 (amended).  For every string-flavoured type entry of a property with a required
  binding to a URL other than the \<open>resource-types\<close> URL: if the URL, its version
  suffix dropped, is absent from the corpus (and the call stack admits one call), or
  the value set flattens to no code, then resolution does not fail and the type is
  \<open>string\<close>, or \<open>string[]\<close> when the upper cardinality is \<open>*\<close>.
\<close>

theorem C8_unresolved_binding_is_string:
  assumes "code td \<in> set stringCodes"
    and "requiredValueSet p = Some u"
    and "u \<noteq> ''http://hl7.org/fhir/ValueSet/resource-types|4.0.1''"
    and "(vs (stripVersion u) = None \<and> 0 < fuel) \<or> getValueSetValues fuel vs u = Some []"
  shows "getTypeScriptTypeForProperty fuel vs p td =
     Inr (if max_card (pdefinition p) = Some ''*'' then ''string[]'' else ''string'')"
proof -
  have "getValueSetValues fuel vs u = Some []"
    using assms(4) by (cases fuel) auto
  then have "switchBaseType fuel vs p td = Inr ''string''"
    using assms(1,2,3) by (simp add: switchBaseType_def)
  then show ?thesis
    using not_includes_string by (simp add: getTypeScriptTypeForProperty_def)
qed

theorem C8_unresolved_binding_is_string_witness:
  "code stringCode \<in> set stringCodes \<and>
   requiredValueSet (boundProperty ''http://x/unknown'' ''1'') = Some ''http://x/unknown'' \<and>
   ''http://x/unknown'' \<noteq> ''http://hl7.org/fhir/ValueSet/resource-types|4.0.1'' \<and>
   overlapCorpus (stripVersion ''http://x/unknown'') = None \<and> (0::nat) < 1 \<and>
   getTypeScriptTypeForProperty 1 overlapCorpus (boundProperty ''http://x/unknown'' ''1'') stringCode =
     Inr ''string''"
proof -
  have h1: "code stringCode \<in> set stringCodes" by (simp add: stringCode_def stringCodes_def)
  have h2: "requiredValueSet (boundProperty ''http://x/unknown'' ''1'') = Some ''http://x/unknown''"
    by (simp add: requiredValueSet_def boundProperty_def truthy_def)
  have h3: "''http://x/unknown'' \<noteq> ''http://hl7.org/fhir/ValueSet/resource-types|4.0.1''" by simp
  have h4: "overlapCorpus (stripVersion ''http://x/unknown'') = None \<and> (0::nat) < 1"
    by (simp add: stripVersion_samples overlapCorpus_def)
  have m: "max_card (pdefinition (boundProperty ''http://x/unknown'' ''1'')) \<noteq> Some ''*''"
    by (simp add: boundProperty_def)
  from C8_unresolved_binding_is_string[of stringCode _ "''http://x/unknown''" overlapCorpus 1, OF h1 h2 h3] h4 m
  have "getTypeScriptTypeForProperty 1 overlapCorpus (boundProperty ''http://x/unknown'' ''1'') stringCode =
     Inr ''string''" by simp
  with h1 h2 h3 h4 show ?thesis by blast
qed

subsection \<open>Imports and emission of a unit\<close>

text \<open>
  C5 (as stated, refuted).  The claim: every unit whose properties reference a generic
  carrier imports \<open>Resource\<close>.  The unit \<open>Foo\<close> has a property of type
  \<open>Reference<Patient>\<close>; its file imports \<open>Patient\<close> and \<open>Reference\<close> and nothing else.
\<close>

theorem C5_counterexample:
  "writeInterfaceFile id 0 Map.empty fooUnit =
     Inr (Some (''Foo.d.ts'',
       [importLine ''Patient'', importLine ''Reference'',
        NewLine, Append ''export interface Foo {'', IndentInc,
        NewLine, NewLine, Append ''subject?: Reference<Patient>;'',
        IndentDec, Append ''}'']))
   \<and> importLine ''Resource'' \<notin> set [importLine ''Patient'', importLine ''Reference'',
        NewLine, Append ''export interface Foo {'', IndentInc,
        NewLine, NewLine, Append ''subject?: Reference<Patient>;'',
        IndentDec, Append ''}'']"
proof -
  have d: "definition_text (pdefinition subjectProperty) = None" by (simp add: subjectProperty_def)
  show ?thesis
  by (simp add: d writeInterfaceFile_def fooUnit_def gtsp_subject clean_subject set_add_def
      importedNames_def writeInterfaceProperty_def generateJavadoc_def truthy_def genericTypes_def
      importLine_def)
qed

text \<open>
  C5 (amended).  The file of a unit whose top node is named \<open>Reference\<close> and has
  properties declares \<open>Reference\<close> with the type-parameter clause, ends the declaration
  with the extra optional field \<open>resource?: T\<close>, and imports \<open>Resource\<close> (unless a
  nested type of the unit bears that name), whatever the resolved property types are.
  Units that only mention \<open>Reference\<close> in a property type get no such import.
\<close>

theorem C5_reference_unit:
  assumes "writeInterfaceFile collate fuel vs (FhirType f subs) = Inr (Some (path, tr))"
    and "outputName f = ''Reference''" and "properties f \<noteq> []"
  shows "Append ''export interface Reference<T extends Resource = Resource> {'' \<in> set tr \<and>
     (\<exists>pre post. tr = pre @ [NewLine, Javadoc ''Optional Resource referred to by this reference.'',
         Append ''resource?: T;'', IndentDec, Append ''}''] @ post) \<and>
     (''Resource'' \<notin> set (concat (map unitNames subs)) \<longrightarrow> importLine ''Resource'' \<in> set tr)"
proof -
  from assms(1) obtain acc body where acc: "buildImports fuel vs (FhirType f subs) ([], []) = Inr acc"
    and body: "writeInterface collate fuel vs (FhirType f subs) = Inr body"
    and tr: "tr = map importLine (importedNames acc) @ body"
    by (auto simp: writeInterfaceFile_def split: if_splits sum.splits)
  from body assms(2,3) obtain props nested where
    b: "body = [NewLine] @ generateJavadoc (description (tdefinition f)) @
          [Append ''export interface Reference<T extends Resource = Resource> {'', IndentInc] @
          (if resource f
           then [NewLine] @ generateJavadoc (Some (''This is a '' @ ''Reference'' @ '' resource'')) @
                [Append (''readonly resourceType: '' @ apos @ ''Reference'' @ apos @ '';'')]
           else []) @
          concat (map (\<lambda>out. NewLine # out) props) @
          ([NewLine] @ generateJavadoc (Some ''Optional Resource referred to by this reference.'') @
             [Append ''resource?: T;'']) @
          [IndentDec, Append ''}''] @ nested"
    by (auto simp: genericTypes_def Let_def split: sum.splits)
  have jd: "generateJavadoc (Some ''Optional Resource referred to by this reference.'') =
      [Javadoc ''Optional Resource referred to by this reference.'']"
    by (simp add: generateJavadoc_def truthy_def)
  have c1: "Append ''export interface Reference<T extends Resource = Resource> {'' \<in> set tr"
    unfolding tr b by simp
  have "tr = (map importLine (importedNames acc) @ [NewLine] @ generateJavadoc (description (tdefinition f)) @
          [Append ''export interface Reference<T extends Resource = Resource> {'', IndentInc] @
          (if resource f
           then [NewLine] @ generateJavadoc (Some (''This is a '' @ ''Reference'' @ '' resource'')) @
                [Append (''readonly resourceType: '' @ apos @ ''Reference'' @ apos @ '';'')]
           else []) @
          concat (map (\<lambda>out. NewLine # out) props)) @
        [NewLine, Javadoc ''Optional Resource referred to by this reference.'',
         Append ''resource?: T;'', IndentDec, Append ''}''] @ nested"
    unfolding tr b jd by simp
  then have c2: "\<exists>pre post. tr = pre @ [NewLine, Javadoc ''Optional Resource referred to by this reference.'',
         Append ''resource?: T;'', IndentDec, Append ''}''] @ post"
    by blast
  have c3: "importLine ''Resource'' \<in> set tr" if nn: "''Resource'' \<notin> set (concat (map unitNames subs))"
  proof -
    from acc assms(2) obtain incl refs where "acc = (incl, set_add ''Resource'' refs)"
      by (auto split: sum.splits)
    then have r: "''Resource'' \<in> set (snd acc)" by (simp add: set_add_def)
    from buildImports_bound(1)[OF acc] have "set (fst acc) = set (unitNames (FhirType f subs))" by simp
    then have "''Resource'' \<notin> set (fst acc)" using nn assms(2) by simp
    with r have "''Resource'' \<in> set (importedNames acc)" by (simp add: importedNames_def)
    then show ?thesis unfolding tr by simp
  qed
  from c1 c2 c3 show ?thesis by blast
qed

theorem C5_reference_unit_witness:
  "writeInterfaceFile id 0 Map.empty referenceUnit = Inr (Some (''Reference.d.ts'', referenceFile)) \<and>
   importLine ''Resource'' \<in> set referenceFile"
proof -
  have d: "definition_text (pdefinition referenceProperty) = None" by (simp add: referenceProperty_def)
  have h: "writeInterfaceFile id 0 Map.empty referenceUnit = Inr (Some (''Reference.d.ts'', referenceFile))"
    by (simp add: d writeInterfaceFile_def referenceUnit_def gtsp_reference clean_string set_add_def
      importedNames_def writeInterfaceProperty_def generateJavadoc_def truthy_def genericTypes_def
      referenceFile_def)
  from C5_reference_unit[OF h[unfolded referenceUnit_def]] h show ?thesis by simp
qed

text \<open>
  C6.  The file of every emission unit starts with its import lines.  The imported
  names are in lexicographic order, none of them is the name of the unit's top-level
  type or of a nested subtype, and none comes from a type-parameter expression: each is
  \<open>Resource\<close> or is mentioned by the resolved type of a property that is not a
  generic-carrier field.
\<close>

theorem C6_imports_exclude_unit_names:
  assumes "writeInterfaceFile collate fuel vs t = Inr (Some (path, tr))"
  shows "\<exists>imports body. tr = map importLine imports @ body \<and>
           writeInterface collate fuel vs t = Inr body \<and>
           sorted imports \<and>
           set imports \<inter> set (unitNames t) = {} \<and>
           set imports \<subseteq> insert ''Resource'' (concreteReferences fuel vs (unitProperties t))"
proof -
  from assms obtain acc body where acc: "buildImports fuel vs t ([], []) = Inr acc"
    and body: "writeInterface collate fuel vs t = Inr body"
    and tr: "tr = map importLine (importedNames acc) @ body"
    by (auto simp: writeInterfaceFile_def split: if_splits sum.splits)
  from buildImports_bound(1)[OF acc] have
    incl: "set (fst acc) = set (unitNames t)" and
    refs: "set (snd acc) \<subseteq> insert ''Resource'' (concreteReferences fuel vs (unitProperties t))"
    by simp_all
  have "sorted (importedNames acc)" by (simp add: importedNames_def sorted_wrt_filter)
  moreover have "set (importedNames acc) \<inter> set (unitNames t) = {}"
    using incl by (auto simp: importedNames_def)
  moreover have "set (importedNames acc) \<subseteq> insert ''Resource'' (concreteReferences fuel vs (unitProperties t))"
    using refs by (auto simp: importedNames_def)
  ultimately show ?thesis using tr body by blast
qed

theorem C6_imports_exclude_unit_names_witness:
  "writeInterfaceFile id 0 Map.empty patientUnit =
     Inr (Some (''Patient.d.ts'', importLine ''HumanName'' # patientInterface @ contactInterface)) \<and>
   (\<exists>imports body. importLine ''HumanName'' # patientInterface @ contactInterface = map importLine imports @ body \<and>
           writeInterface id 0 Map.empty patientUnit = Inr body \<and>
           sorted imports \<and>
           set imports \<inter> set (unitNames patientUnit) = {} \<and>
           set imports \<subseteq> insert ''Resource'' (concreteReferences 0 Map.empty (unitProperties patientUnit)))"
  using C6_imports_exclude_unit_names[OF patientUnit_file[of 0 Map.empty]] patientUnit_file[of 0 Map.empty] by blast

subsection \<open>Building a type node\<close>

text \<open>
  C10.  No property of a built node has a name that starts with an underscore.
  Removing those properties from the schema entry changes nothing in the node except
  the stored schema entry itself (so the fields, the two classification flags,
  the parent and the names are the same), and the file written for the node, imports
  included, is the same.
\<close>

theorem C10_underscore_properties_excluded:
  "(\<forall>f. buildType rt d = Some f \<longrightarrow> (\<forall>p \<in> set (properties f). \<not> startsWith (name p) ''_'')) \<and>
   buildType rt (withoutUnderscore d) =
     map_option (\<lambda>f. f\<lparr>tdefinition := withoutUnderscore d\<rparr>) (buildType rt d) \<and>
   (\<forall>f f'. buildType rt d = Some f \<and> buildType rt (withoutUnderscore d) = Some f' \<longrightarrow>
      writeInterfaceFile collate fuel vs (FhirType f' subs) =
      writeInterfaceFile collate fuel vs (FhirType f subs))"
proof (intro conjI allI impI)
  fix f assume "buildType rt d = Some f"
  then show "\<forall>p \<in> set (properties f). \<not> startsWith (name p) ''_''"
    using buildType_no_underscore by blast
next
  show "buildType rt (withoutUnderscore d) =
     map_option (\<lambda>f. f\<lparr>tdefinition := withoutUnderscore d\<rparr>) (buildType rt d)"
    by (rule buildType_withoutUnderscore)
next
  fix f f'
  assume a: "buildType rt d = Some f \<and> buildType rt (withoutUnderscore d) = Some f'"
  then have f': "f' = f\<lparr>tdefinition := withoutUnderscore d\<rparr>"
    by (auto simp: buildType_withoutUnderscore)
  have "tdefinition f = d" using a by (cases "ts_properties d") (auto simp: buildType_def Let_def)
  then have "description (withoutUnderscore d) = description (tdefinition f)"
    by (simp add: withoutUnderscore_def)
  then show "writeInterfaceFile collate fuel vs (FhirType f' subs) =
      writeInterfaceFile collate fuel vs (FhirType f subs)"
    unfolding f' by (rule writeInterfaceFile_definition)
qed

theorem C10_underscore_properties_excluded_witness:
  "buildType ''Sample'' underscoreSchema = Some sampleFields \<and>
   list_all (\<lambda>p. \<not> startsWith (name p) ''_'') (properties sampleFields) \<and>
   buildType ''Sample'' (withoutUnderscore underscoreSchema) =
     Some (sampleFields\<lparr>tdefinition := withoutUnderscore underscoreSchema\<rparr>) \<and>
   writeInterfaceFile id 0 Map.empty (FhirType (sampleFields\<lparr>tdefinition := withoutUnderscore underscoreSchema\<rparr>) []) =
   writeInterfaceFile id 0 Map.empty (FhirType sampleFields [])"
  using C10_underscore_properties_excluded[of "''Sample''" underscoreSchema id 0 Map.empty "[]"] buildType_sample
  by (simp add: list_all_iff)

end
